theory Spec2Isabelle
  imports Main "HOL-Library.Sublist"
begin

section \<open>JavaScript values\<close>

text \<open>
  The values the two source files move around without looking inside: configuration
  entries, record fields, query parameters. Numbers are restricted to integers.
\<close>

datatype jsval =
    JUndefined
  | JNull
  | JBool bool
  | JNum int
  | JStr string
  | JObj "(string \<times> jsval) list"

text \<open>ToBoolean: what \<open>a || b\<close> and \<open>c ? x : y\<close> test.\<close>

fun truthy :: "jsval \<Rightarrow> bool" where
  "truthy JUndefined = False"
| "truthy JNull = False"
| "truthy (JBool b) = b"
| "truthy (JNum n) = (n \<noteq> 0)"
| "truthy (JStr s) = (s \<noteq> [])"
| "truthy (JObj kvs) = True"

text \<open>\<open>a || b\<close>: the left operand when it is truthy, the right one otherwise.\<close>

definition js_or :: "jsval \<Rightarrow> jsval \<Rightarrow> jsval" where
  "js_or a b = (if truthy a then a else b)"

section \<open>The settings page of \<open>src/web/public/script.js\<close>\<close>

text \<open>
  The \<open>_settings\<close> object, with its nested objects \<open>mysql\<close>, \<open>mongo\<close> and
  \<open>server\<close> flattened into one record. The leaves are JavaScript values: the
  defaults hold strings, numbers and booleans, and \<open>getEnteredSettings\<close> puts the
  form's strings where numbers were.
\<close>

record settings =
  dbType :: jsval
  mysql_host :: jsval
  mysql_user :: jsval
  mysql_password :: jsval
  mysql_dbName :: jsval
  mongo_uri :: jsval
  mongo_options :: jsval
  mongo_dbName :: jsval
  cores :: jsval
  logging :: jsval
  server_port :: jsval
  server_openBrowser :: jsval

text \<open>The initial value of \<open>_settings\<close> (lines 3 to 22).\<close>

definition default_settings :: settings where
  "default_settings = \<lparr>
     dbType = JStr ''sql'',
     mysql_host = JStr ''localhost'',
     mysql_user = JStr ''root'',
     mysql_password = JStr '''',
     mysql_dbName = JStr ''automate-scanner'',
     mongo_uri = JStr ''mongodb://localhost/'',
     mongo_options = JObj [],
     mongo_dbName = JStr ''automate-scanner'',
     cores = JNum 8,
     logging = JBool True,
     server_port = JNum 8080,
     server_openBrowser = JBool False \<rparr>"

text \<open>
  The form as jQuery reads it. \<open>$(sel).val()\<close> of a text input is its string, and
  \<open>undefined\<close> when no element matches the selector (the SQL inputs exist only while
  the database type is \<open>sql\<close>, the Mongo inputs only while it is \<open>mongo\<close>); the
  value of the \<open>select\<close> is \<open>null\<close> when no option is selected. Both are
  \<open>None\<close> here: they are falsy and differ from every string.
  \<open>.prop('checked')\<close> is a boolean, or \<open>undefined\<close> without an element.
\<close>

record form =
  in_database_type :: "string option"
  in_sql_host :: "string option"
  in_sql_user :: "string option"
  in_sql_password :: "string option"
  in_sql_name :: "string option"
  in_mongo_uri :: "string option"
  in_mongo_name :: "string option"
  in_scan_cores :: "string option"
  in_server_port :: "string option"
  in_server_browser :: "bool option"
  in_scan_logging :: "bool option"

text \<open>The value \<open>.val()\<close> returns.\<close>

fun val :: "string option \<Rightarrow> jsval" where
  "val None = JUndefined"
| "val (Some s) = JStr s"

text \<open>
  \<open>typeof x === 'boolean' ? x : stored\<close>, for the two checkboxes.
\<close>

fun checked_or :: "bool option \<Rightarrow> jsval \<Rightarrow> jsval" where
  "checked_or (Some b) stored = JBool b"
| "checked_or None stored = stored"

text \<open>
  \<open>x === '' ? '' : x || stored\<close>, the expression of the SQL user and password
  (lines 123 and 124).
\<close>

definition empty_or :: "jsval \<Rightarrow> jsval \<Rightarrow> jsval" where
  "empty_or x stored = (if x = JStr '''' then JStr '''' else js_or x stored)"

text \<open>\<open>getEnteredSettings\<close> (lines 114 to 139).\<close>

definition getEnteredSettings :: "settings \<Rightarrow> form \<Rightarrow> settings" where
  "getEnteredSettings st f =
     (let dbSqlPassword = val (in_sql_password f);
          dbSqlUser = val (in_sql_user f);
          serverOpenBrowser = in_server_browser f;
          scanLogging = in_scan_logging f
      in \<lparr> dbType = js_or (val (in_database_type f)) (dbType st),
           mysql_host = js_or (val (in_sql_host f)) (mysql_host st),
           mysql_user = empty_or dbSqlUser (mysql_user st),
           mysql_password = empty_or dbSqlPassword (mysql_password st),
           mysql_dbName = js_or (val (in_sql_name f)) (mysql_dbName st),
           mongo_uri = js_or (val (in_mongo_uri f)) (mongo_uri st),
           mongo_options = mongo_options st,
           mongo_dbName = js_or (val (in_mongo_name f)) (mongo_dbName st),
           cores = js_or (val (in_scan_cores f)) (cores st),
           logging = checked_or scanLogging (logging st),
           server_port = js_or (val (in_server_port f)) (server_port st),
           server_openBrowser = checked_or serverOpenBrowser (server_openBrowser st) \<rparr>)"

text \<open>A form field that is empty or missing.\<close>

definition blank :: "string option \<Rightarrow> bool" where
  "blank v = (v = None \<or> v = Some [])"

text \<open>Two forms to run the functions on: every field empty, and no field at all.\<close>

definition empty_form :: form where
  "empty_form = \<lparr>
     in_database_type = None,
     in_sql_host = Some [], in_sql_user = Some [], in_sql_password = Some [],
     in_sql_name = Some [], in_mongo_uri = None, in_mongo_name = None,
     in_scan_cores = Some [], in_server_port = Some [],
     in_server_browser = Some False, in_scan_logging = Some True \<rparr>"

definition absent_form :: form where
  "absent_form = \<lparr>
     in_database_type = None,
     in_sql_host = None, in_sql_user = None, in_sql_password = None,
     in_sql_name = None, in_mongo_uri = None, in_mongo_name = None,
     in_scan_cores = None, in_server_port = None,
     in_server_browser = None, in_scan_logging = None \<rparr>"

section \<open>Text of values\<close>

text \<open>Decimal digits of a natural number, and of an integer.\<close>

definition digit_char :: "nat \<Rightarrow> char" where
  "digit_char n = ''0123456789'' ! (n mod 10)"

fun show_nat :: "nat \<Rightarrow> string" where
  "show_nat n = (if n < 10 then [digit_char n] else show_nat (n div 10) @ [digit_char n])"

declare show_nat.simps [simp del]

definition show_int :: "int \<Rightarrow> string" where
  "show_int i = (if i < 0 then CHR ''-'' # show_nat (nat (- i)) else show_nat (nat i))"

text \<open>
  ToString, as a template literal \<open>`${v}`\<close> applies it. An object prints as
  \<open>[object Object]\<close>.
\<close>

fun to_str :: "jsval \<Rightarrow> string" where
  "to_str JUndefined = ''undefined''"
| "to_str JNull = ''null''"
| "to_str (JBool b) = (if b then ''true'' else ''false'')"
| "to_str (JNum n) = show_int n"
| "to_str (JStr s) = s"
| "to_str (JObj kvs) = ''[object Object]''"

text \<open>
  \<open>s.replace(/\n/g, '<br>')\<close>: every line feed becomes the four characters
  \<open><br>\<close>.
\<close>

definition nl2br :: "string \<Rightarrow> string" where
  "nl2br s = concat (map (\<lambda>c. if c = CHR 0x0A then ''<br>'' else [c]) s)"

section \<open>The observer of \<open>src/web/public/script.js\<close>\<close>

text \<open>
  The content of \<open>#main-container\<close>: the markup of the page as loaded (it is not
  part of the script), or the markup \<open>startScan\<close> writes.
\<close>

datatype page = LoadedPage | ScanPage

text \<open>
  The state of the script and of the part of the document it touches.
  \<^item> \<open>c_settings\<close> and \<open>c_status\<close> are the globals \<open>_settings\<close> and
    \<open>_status\<close> (\<open>undefined\<close> until the first \<open>init\<close>).
  \<^item> \<open>logs_elems\<close> is a store of every \<open>#logs-area\<close> element created so far
    with its inner HTML, by creation index: an element that \<open>startScan\<close> has
    replaced is detached from the document but the listener that captured it still
    writes to it. \<open>logs_area\<close> is the element now in the document.
  \<^item> \<open>logs_listeners\<close> holds, for every registered listener of \<open>logs\<close>, the
    element its closure captured as \<open>logsArea\<close>, in registration order.
    \<open>status_listeners\<close> and \<open>end_listeners\<close> count the listeners of the other
    two messages.
  \<^item> \<open>toast\<close> is the header, body and delay last shown by \<open>sendToast\<close>.
\<close>

record client =
  c_settings :: settings
  c_status :: jsval
  c_form :: form
  toast :: "(string \<times> string \<times> nat) option"
  main_container :: page
  progress_area :: "string option"
  logs_elems :: "string list"
  logs_area :: "nat option"
  logs_listeners :: "nat list"
  status_listeners :: nat
  end_listeners :: nat


text \<open>\<open>sendToast(header, message, delay = 5000)\<close> (lines 36 to 40).\<close>

definition sendToast :: "string \<Rightarrow> string \<Rightarrow> client \<Rightarrow> client" where
  "sendToast header message c = c\<lparr>toast := Some (header, message, 5000)\<rparr>"

text \<open>
  The string jQuery's \<open>.val(v)\<close> stores: the empty string for \<open>null\<close> and
  \<open>undefined\<close>, the text of the value otherwise.
\<close>

definition val_text :: "jsval \<Rightarrow> string" where
  "val_text v = (if v = JUndefined \<or> v = JNull then [] else to_str v)"

text \<open>\<open>$(sel).val(v)\<close> on a text input: nothing happens without an element.\<close>

definition set_val :: "jsval \<Rightarrow> string option \<Rightarrow> string option" where
  "set_val v field = (case field of None \<Rightarrow> None | Some old \<Rightarrow> Some (val_text v))"

text \<open>\<open>$(sel).prop('checked', v)\<close>.\<close>

definition set_checked :: "jsval \<Rightarrow> bool option \<Rightarrow> bool option" where
  "set_checked v field = (case field of None \<Rightarrow> None | Some old \<Rightarrow> Some (truthy v))"

text \<open>
  Modelled from the spec: the options of the \<open>select\<close> element
  \<open>#settings-database-type\<close>, which the page's markup declares and the script
  only reads. The spec names the two values of the discriminant, \<open>sql\<close> and
  \<open>mongo\<close>. Setting the \<open>select\<close> to any other value leaves no option
  selected.
\<close>

definition dbType_options :: "string list" where
  "dbType_options = [''sql'', ''mongo'']"

text \<open>
  \<open>generateDbSettings(type)\<close> (lines 75 to 102), by its effect on the form once
  \<open>changeDbType\<close> has removed the old inputs and inserted the result: the four SQL
  inputs, the two Mongo inputs, or none. The \<open>value\<close> attributes are written
  with a template literal; the model takes the text of each setting as the value,
  which is what the browser parses when that text holds no double quote and no
  character reference.
\<close>

definition generateDbSettings :: "settings \<Rightarrow> string \<Rightarrow> form \<Rightarrow> form" where
  "generateDbSettings st type f =
     (if type = ''sql'' then
        f\<lparr>in_sql_host := Some (to_str (mysql_host st)),
          in_sql_user := Some (to_str (mysql_user st)),
          in_sql_password := Some (to_str (mysql_password st)),
          in_sql_name := Some (to_str (mysql_dbName st)),
          in_mongo_uri := None, in_mongo_name := None\<rparr>
      else if type = ''mongo'' then
        f\<lparr>in_sql_host := None, in_sql_user := None, in_sql_password := None,
          in_sql_name := None,
          in_mongo_uri := Some (to_str (mongo_uri st)),
          in_mongo_name := Some (to_str (mongo_dbName st))\<rparr>
      else
        f\<lparr>in_sql_host := None, in_sql_user := None, in_sql_password := None,
          in_sql_name := None, in_mongo_uri := None, in_mongo_name := None\<rparr>)"

text \<open>
  \<open>changeDbType(type)\<close> (lines 68 to 73): the argument, else the value of the
  \<open>select\<close>, else \<open>sql\<close>.
\<close>

definition changeDbType :: "jsval \<Rightarrow> client \<Rightarrow> client" where
  "changeDbType type c =
     (let type' = val_text (js_or (js_or type (val (in_database_type (c_form c)))) (JStr ''sql''));
          f = (c_form c)\<lparr>in_database_type :=
                 (if type' \<in> set dbType_options then Some type' else None)\<rparr>
      in c\<lparr>c_form := generateDbSettings (c_settings c) type' f\<rparr>)"

text \<open>\<open>updateSettings()\<close> (lines 105 to 111).\<close>

definition updateSettings :: "client \<Rightarrow> client" where
  "updateSettings c =
     (let c1 = changeDbType (dbType (c_settings c)) c;
          st = c_settings c1;
          f = c_form c1
      in c1\<lparr>c_form := f\<lparr>
           in_scan_cores := set_val (cores st) (in_scan_cores f),
           in_server_port := set_val (server_port st) (in_server_port f),
           in_server_browser := set_checked (server_openBrowser st) (in_server_browser f),
           in_scan_logging := set_checked (logging st) (in_scan_logging f)\<rparr>\<rparr>)"

text \<open>
  \<open>startScan(logs)\<close> (lines 163 to 206). Writing the markup creates a new, empty
  \<open>#logs-area\<close> and a \<open>#scan-progress-area\<close> that reads \<open>Initializing\<close>.
  \<open>if (logs)\<close> skips both \<open>undefined\<close> and the empty string. Then one listener
  each is added for \<open>logs\<close>, \<open>status\<close> and \<open>end\<close>; none is ever removed.
  (The click handler of the cancel button only emits \<open>stop-scan\<close>.) The page is
  taken to hold the element \<open>#main-container\<close>, which its markup declares.
\<close>

definition startScan :: "string option \<Rightarrow> client \<Rightarrow> client" where
  "startScan logs c =
     (let logsArea = length (logs_elems c);
          html = (case logs of None \<Rightarrow> [] | Some l \<Rightarrow> if l \<noteq> [] then nl2br l else [])
      in c\<lparr>main_container := ScanPage,
           progress_area := Some ''Initializing'',
           logs_elems := logs_elems c @ [html],
           logs_area := Some logsArea,
           logs_listeners := logs_listeners c @ [logsArea],
           status_listeners := Suc (status_listeners c),
           end_listeners := Suc (end_listeners c)\<rparr>)"

text \<open>
  The \<open>init\<close> message as the handler reads it: \<open>data.config\<close>,
  \<open>data.status\<close> and \<open>data.logs\<close> (\<open>None\<close> when the message has no such
  property).
\<close>

record init_msg =
  config :: settings
  status :: jsval
  logs :: "string option"


text \<open>The handler of \<open>settings\<close> (lines 44 to 50).\<close>

definition on_settings :: "settings \<Rightarrow> client \<Rightarrow> client" where
  "on_settings data c =
     (let c1 = c\<lparr>c_settings := data\<rparr>
      in if c_status c1 = JStr ''idle'' then
           sendToast ''Settings changed'' ''Settings are reloaded from the config''
             (updateSettings c1)
         else c1)"

text \<open>The handler of \<open>start-scan\<close> (lines 158 to 160): \<open>startScan()\<close>.\<close>

definition on_start_scan :: "client \<Rightarrow> client" where
  "on_start_scan c = startScan None c"






section \<open>Errors and promises of \<open>src/databases/Database.js\<close>\<close>

text \<open>
  What a call can throw or reject with: the two JavaScript errors the code can raise
  itself, and an error reported by the database driver (connection, authentication or
  statement), named by its code.
\<close>

datatype error = TypeError | RangeError | DriverError string

text \<open>
  The state a promise ends in. \<open>Pending\<close> is a promise that is never settled:
  whoever awaits it waits forever.
\<close>

datatype 'a promise = Fulfilled 'a | Rejected error | Pending

text \<open>
  What the callback given to the driver does when the driver calls it: it calls
  \<open>resolve\<close>, it calls \<open>reject\<close>, or it throws. The driver calls back from the
  event loop, after the executor of \<open>new Promise\<close> has returned, so an exception
  thrown by the callback does not reach the promise: the promise stays pending and
  the exception is uncaught.
\<close>

datatype 'a callback_run = Resolve 'a | Reject error | Throw error

fun promise_after :: "'a callback_run \<Rightarrow> 'a promise" where
  "promise_after (Resolve v) = Fulfilled v"
| "promise_after (Reject e) = Rejected e"
| "promise_after (Throw e) = Pending"

fun uncaught_after :: "'a callback_run \<Rightarrow> error option" where
  "uncaught_after (Resolve v) = None"
| "uncaught_after (Reject e) = None"
| "uncaught_after (Throw e) = Some e"

text \<open>
  \<open>await\<close> inside an \<open>async\<close> function with no \<open>try\<close>: the function goes on
  with the value of a fulfilled promise, rejects with the error of a rejected one, and
  never finishes on one that stays pending.
\<close>

definition await_then ::
  "'w \<times> 'a promise \<Rightarrow> ('a \<Rightarrow> 'w \<Rightarrow> 'w \<times> 'b promise) \<Rightarrow> 'w \<times> 'b promise" where
  "await_then r k =
     (case r of
        (w, Fulfilled v) \<Rightarrow> k v w
      | (w, Rejected e) \<Rightarrow> (w, Rejected e)
      | (w, Pending) \<Rightarrow> (w, Pending))"

section \<open>Dates\<close>

text \<open>
  \<open>new Date(timestamp)\<close> for a number of milliseconds since the epoch: the time
  value, or an invalid date (\<open>None\<close>) beyond 8.64e15 ms on either side.
\<close>

definition new_Date :: "int \<Rightarrow> int option" where
  "new_Date timestamp =
     (if \<bar>timestamp\<bar> \<le> 8640000000000000 then Some timestamp else None)"

text \<open>
  Year, month and day of the month of a day number counted from 1970-01-01, in the
  proleptic Gregorian calendar that ECMAScript dates use. Years are counted from
  March in 400-year eras of 146097 days.
\<close>

definition civil_from_days :: "int \<Rightarrow> int \<times> int \<times> int" where
  "civil_from_days day =
     (let z = day + 719468;
          era = z div 146097;
          doe = z mod 146097;
          yoe = (doe - doe div 1460 + doe div 36524 - doe div 146096) div 365;
          doy = doe - (365 * yoe + yoe div 4 - yoe div 100);
          mp = (5 * doy + 2) div 153;
          d = doy - (153 * mp + 2) div 5 + 1;
          m = (if mp < 10 then mp + 3 else mp - 9);
          y = yoe + era * 400 + (if m \<le> 2 then 1 else 0)
      in (y, m, d))"

definition pad :: "nat \<Rightarrow> nat \<Rightarrow> string" where
  "pad width n = replicate (width - length (show_nat n)) CHR ''0'' @ show_nat n"

text \<open>
  The date part of a time value, \<open>YYYY-MM-DD\<close>; years outside 0 to 9999 are written
  with a sign and six digits, as \<open>toISOString\<close> does.
\<close>

definition date_text :: "int \<Rightarrow> string" where
  "date_text t =
     (case civil_from_days (t div 86400000) of
        (y, m, d) \<Rightarrow>
          (if 0 \<le> y \<and> y \<le> 9999 then pad 4 (nat y)
           else (if y < 0 then ''-'' else ''+'') @ pad 6 (nat \<bar>y\<bar>))
          @ ''-'' @ pad 2 (nat m) @ ''-'' @ pad 2 (nat d))"

text \<open>The time of day of a time value, \<open>HH:MM:SS\<close>.\<close>

definition time_text :: "int \<Rightarrow> string" where
  "time_text t =
     pad 2 (nat (t div 3600000 mod 24)) @ '':'' @ pad 2 (nat (t div 60000 mod 60)) @ '':'' @
     pad 2 (nat (t div 1000 mod 60))"

text \<open>\<open>date.toISOString()\<close> of a valid date: always in UTC.\<close>

definition toISOString :: "int \<Rightarrow> string" where
  "toISOString t =
     date_text t @ ''T'' @ time_text t @ ''.'' @ pad 3 (nat (t mod 1000)) @ ''Z''"

text \<open>
  \<open>date.toTimeString()\<close> of a valid date: the time of day in the local time zone,
  then the offset. \<open>tz\<close> is the offset of local time from UTC at that instant, in
  minutes, positive east of Greenwich; it belongs to the machine the code runs on. The
  name of the time zone that engines append in parentheses, after a space, is left
  out.
\<close>

definition toTimeString :: "int \<Rightarrow> int \<Rightarrow> string" where
  "toTimeString tz t =
     time_text (t + tz * 60000) @ '' GMT'' @ (if tz < 0 then ''-'' else ''+'') @
     pad 2 (nat (\<bar>tz\<bar> div 60)) @ pad 2 (nat (\<bar>tz\<bar> mod 60))"

text \<open>\<open>s.split(c)\<close> for a separator of one character.\<close>

fun split_char :: "char \<Rightarrow> string \<Rightarrow> string list" where
  "split_char c [] = [[]]"
| "split_char c (x # xs) =
     (if x = c then [] # split_char c xs
      else (case split_char c xs of [] \<Rightarrow> [[x]] | piece # pieces \<Rightarrow> (x # piece) # pieces))"

text \<open>
  \<open>mySqlDateTime(timestamp)\<close> (lines 118 to 121). \<open>toISOString\<close> throws a
  \<open>RangeError\<close> on an invalid date. \<open>split\<close> never returns an empty array, so
  element 0 is the head.
\<close>

definition mySqlDateTime :: "int \<Rightarrow> int \<Rightarrow> error + string" where
  "mySqlDateTime tz timestamp =
     (case new_Date timestamp of
        None \<Rightarrow> Inl RangeError
      | Some date \<Rightarrow>
          Inr (hd (split_char CHR ''T'' (toISOString date)) @ '' '' @
               hd (split_char CHR '' '' (toTimeString tz date))))"

text \<open>
  The spec's words for the relational variant, \<open>YYYY-MM-DD HH:MM:SS\<close> in local
  time: date and time of day both read off the local clock.
\<close>

definition local_datetime :: "int \<Rightarrow> int \<Rightarrow> string" where
  "local_datetime tz t = date_text (t + tz * 60000) @ '' '' @ time_text (t + tz * 60000)"

section \<open>The relational driver of \<open>src/databases/Database.js\<close>\<close>

text \<open>
  The statements the class \<open>Mysql\<close> sends, by their parse. The source writes them
  as SQL text with the database name spliced in; the constructors stand for that text
  when the name holds no backtick, quote or backslash.
  \<^item> \<open>ShowDatabasesLike p\<close>: \<open>SHOW DATABASES LIKE 'p'\<close>
  \<^item> \<open>DropDatabase d\<close>: \<open>DROP DATABASE `d`\<close>
  \<^item> \<open>CreateDatabase d\<close>: \<open>CREATE DATABASE `d`\<close>
  \<^item> \<open>Use d\<close>: \<open>USE `d`\<close>
  \<^item> \<open>CreateTable t\<close>: the statement of the catalog that creates table \<open>t\<close>
  \<^item> \<open>InsertInto d t columns params\<close>:
    \<open>INSERT INTO `d`.t(columns) VALUES (?, ..., ?)\<close> with its parameters
\<close>

datatype query =
    ShowDatabasesLike string
  | DropDatabase string
  | CreateDatabase string
  | Use string
  | CreateTable string
  | InsertInto string string "string list" "jsval list"

text \<open>
  What the driver hands to the callback of a successful query: the rows of a
  \<open>SHOW\<close> statement (an array), or the packet that acknowledges any other
  statement (not an array: its \<open>length\<close> is \<open>undefined\<close>).
\<close>

datatype result = Rows "string list" | OkPacket

fun result_length :: "result \<Rightarrow> nat option" where
  "result_length (Rows rs) = Some (length rs)"
| "result_length OkPacket = None"

text \<open>
  The object: \<open>this.db\<close> and \<open>this.dbName\<close>, both \<open>undefined\<close> after the
  constructor.
\<close>

record connection =
  conn_host :: string
  conn_user :: string
  conn_password :: string

record mysql =
  db :: "connection option"
  dbName :: "string option"

definition constructor :: mysql where
  "constructor = \<lparr>db = None, dbName = None\<rparr>"

text \<open>\<open>${this.dbName}\<close> inside a template literal.\<close>

definition dbName_text :: "mysql \<Rightarrow> string" where
  "dbName_text this = (case dbName this of None \<Rightarrow> ''undefined'' | Some n \<Rightarrow> n)"

text \<open>
  The world outside the object: the state of the database server, of any type
  \<open>'srv\<close>, and the statements sent to it so far, oldest first.
\<close>

record 'srv world =
  server :: 'srv
  issued :: "query list"

text \<open>
  \<open>connect(host, user, password, dbName)\<close> (lines 22 to 37). \<open>handshake\<close> is the
  driver's \<open>db.connect\<close>: the error it calls back with, if any. On an error the
  callback throws; otherwise it stores the connection and the name and resolves. The
  executor is \<open>resolve => ...\<close>: it has no \<open>reject\<close>. The result is the object,
  the promise returned, and the exception left uncaught.
\<close>

definition connect_callback :: "error option \<Rightarrow> connection \<Rightarrow> connection callback_run" where
  "connect_callback err conn = (case err of Some e \<Rightarrow> Throw e | None \<Rightarrow> Resolve conn)"

definition connect ::
  "(connection \<Rightarrow> error option) \<Rightarrow> string \<Rightarrow> string \<Rightarrow> string \<Rightarrow> string \<Rightarrow> mysql \<Rightarrow>
   mysql \<times> connection promise \<times> error option" where
  "connect handshake host user password name this =
     (let conn = \<lparr>conn_host = host, conn_user = user, conn_password = password\<rparr>;
          run = connect_callback (handshake conn) conn
      in ((case run of
             Resolve c \<Rightarrow> this\<lparr>db := Some c, dbName := Some name\<rparr>
           | Reject e \<Rightarrow> this
           | Throw e \<Rightarrow> this),
          promise_after run, uncaught_after run))"

text \<open>
  \<open>makeQuery(sql, params)\<close> (lines 101 to 110). \<open>exec\<close> is the server: the error
  a statement fails with, or the state it leaves and its result. Without a connection
  \<open>this.db.query\<close> throws a \<open>TypeError\<close> inside the executor, which rejects
  the promise before anything is sent. The callback rejects on an error and resolves
  with the result otherwise.
\<close>

definition query_callback :: "error + 'a \<Rightarrow> 'a callback_run" where
  "query_callback r = (case r of Inl err \<Rightarrow> Reject err | Inr res \<Rightarrow> Resolve res)"

definition makeQuery ::
  "('srv \<Rightarrow> query \<Rightarrow> error + 'srv \<times> result) \<Rightarrow> mysql \<Rightarrow> query \<Rightarrow> 'srv world \<Rightarrow>
   'srv world \<times> result promise" where
  "makeQuery exec this sql w =
     (case db this of
        None \<Rightarrow> (w, Rejected TypeError)
      | Some conn \<Rightarrow>
          (case exec (server w) sql of
             Inl err \<Rightarrow>
               (w\<lparr>issued := issued w @ [sql]\<rparr>, promise_after (query_callback (Inl err)))
           | Inr (srv, res) \<Rightarrow>
               (w\<lparr>server := srv, issued := issued w @ [sql]\<rparr>,
                promise_after (query_callback (Inr res)))))"

text \<open>
  \<open>prepareDatabase()\<close> (lines 71 to 80): the database is dropped only when the
  \<open>SHOW\<close> statement returns exactly one row.
\<close>

definition prepareDatabase ::
  "('srv \<Rightarrow> query \<Rightarrow> error + 'srv \<times> result) \<Rightarrow> mysql \<Rightarrow> 'srv world \<Rightarrow>
   'srv world \<times> unit promise" where
  "prepareDatabase exec this w =
     await_then (makeQuery exec this (ShowDatabasesLike (dbName_text this)) w) (\<lambda>dbCount w.
     await_then
       (if result_length dbCount = Some 1
        then await_then (makeQuery exec this (DropDatabase (dbName_text this)) w)
               (\<lambda>dropped w. (w, Fulfilled ()))
        else (w, Fulfilled ())) (\<lambda>u w.
     await_then (makeQuery exec this (CreateDatabase (dbName_text this)) w) (\<lambda>created w.
     await_then (makeQuery exec this (Use (dbName_text this)) w) (\<lambda>used w.
     (w, Fulfilled ())))))"

text \<open>
  Modelled from the spec: the table definitions of \<open>sql-tables.json\<close>, which
  \<open>createTable\<close> loads with \<open>require('./sql-tables')\<close> and which is not among
  the sources. The spec calls it the schema catalog, the static definitions of the two
  persisted tables \<open>flows\<close> and \<open>reviews\<close>, from which \<open>setup\<close> creates each
  table. The entry for a table is taken to be the statement that creates the table of
  that name in the database selected by \<open>USE\<close>.
\<close>

definition sql_tables :: "string \<Rightarrow> query" where
  "sql_tables tableName = CreateTable tableName"

text \<open>\<open>createTable(tableName)\<close> (lines 88 to 92).\<close>

definition createTable ::
  "('srv \<Rightarrow> query \<Rightarrow> error + 'srv \<times> result) \<Rightarrow> mysql \<Rightarrow> string \<Rightarrow> 'srv world \<Rightarrow>
   'srv world \<times> unit promise" where
  "createTable exec this tableName w =
     await_then (makeQuery exec this (sql_tables tableName) w) (\<lambda>res w. (w, Fulfilled ()))"

text \<open>
  \<open>setup()\<close> of the class \<open>Mysql\<close> (lines 44 to 50); \<open>setup\<close> alone is a
  keyword of the prover.
\<close>

definition setup_mysql ::
  "('srv \<Rightarrow> query \<Rightarrow> error + 'srv \<times> result) \<Rightarrow> mysql \<Rightarrow> 'srv world \<Rightarrow>
   'srv world \<times> unit promise" where
  "setup_mysql exec this w =
     await_then (prepareDatabase exec this w) (\<lambda>u w.
     await_then (createTable exec this ''flows'' w) (\<lambda>u w.
     await_then (createTable exec this ''reviews'' w) (\<lambda>u w.
     (w, Fulfilled ()))))"

text \<open>
  The records \<open>addData\<close> reads. \<open>data['user']['id']\<close> and
  \<open>data['category']['id']\<close> are the fields \<open>f_user_id\<close> and
  \<open>f_category_id\<close>; the time stamps are numbers of milliseconds.
\<close>

record review =
  r_id :: jsval
  r_user_id :: jsval
  r_comment :: jsval
  r_rating :: jsval
  r_created :: int
  r_modified :: int

record flow =
  f_id :: jsval
  f_user_id :: jsval
  f_category_id :: jsval
  f_title :: jsval
  f_description :: jsval
  f_downloads :: jsval
  f_featured :: jsval
  f_created :: int
  f_modified :: int
  f_uploadVersion :: jsval
  f_dataVersion :: jsval
  f_b64Data :: jsval
  f_reviews :: "review list"

text \<open>
  The first statement of \<open>addData\<close> (lines 130 to 146), or the error thrown while
  its parameters are evaluated: \<open>created\<close> is converted before \<open>modified\<close>.
\<close>

definition flow_columns :: "string list" where
  "flow_columns = [''id'', ''user_id'', ''category_id'', ''title'', ''description'',
     ''downloads'', ''featured'', ''created'', ''modified'', ''upload-version'',
     ''data-version'', ''base64-data'']"

definition flow_insert :: "int \<Rightarrow> mysql \<Rightarrow> flow \<Rightarrow> error + query" where
  "flow_insert tz this data =
     (case mySqlDateTime tz (f_created data) of
        Inl e \<Rightarrow> Inl e
      | Inr created \<Rightarrow>
          (case mySqlDateTime tz (f_modified data) of
             Inl e \<Rightarrow> Inl e
           | Inr modified \<Rightarrow>
               Inr (InsertInto (dbName_text this) ''flows'' flow_columns
                 [f_id data, f_user_id data, f_category_id data, f_title data,
                  f_description data, f_downloads data,
                  JNum (if truthy (f_featured data) then 1 else 0),
                  JStr created, JStr modified,
                  f_uploadVersion data, f_dataVersion data, f_b64Data data])))"

text \<open>
  The statement of one turn of the loop (lines 148 to 159), or the error thrown while
  its parameters are evaluated. The third parameter is \<open>data['id']\<close>.
\<close>

definition review_columns :: "string list" where
  "review_columns = [''id'', ''user_id'', ''flow_id'', ''comment'', ''rating'',
     ''created'', ''modified'']"

definition review_insert :: "int \<Rightarrow> mysql \<Rightarrow> flow \<Rightarrow> review \<Rightarrow> error + query" where
  "review_insert tz this data review =
     (case mySqlDateTime tz (r_created review) of
        Inl e \<Rightarrow> Inl e
      | Inr created \<Rightarrow>
          (case mySqlDateTime tz (r_modified review) of
             Inl e \<Rightarrow> Inl e
           | Inr modified \<Rightarrow>
               Inr (InsertInto (dbName_text this) ''reviews'' review_columns
                 [r_id review, r_user_id review, f_id data, r_comment review,
                  r_rating review, JStr created, JStr modified])))"

text \<open>
  The loop \<open>for await (const review of data['reviews'])\<close> (lines 147 to 160), on
  the reviews still to insert: each insert is awaited before the next turn.
\<close>

fun addReviews ::
  "('srv \<Rightarrow> query \<Rightarrow> error + 'srv \<times> result) \<Rightarrow> int \<Rightarrow> mysql \<Rightarrow> flow \<Rightarrow> review list \<Rightarrow>
   'srv world \<Rightarrow> 'srv world \<times> unit promise" where
  "addReviews exec tz this data [] w = (w, Fulfilled ())"
| "addReviews exec tz this data (review # rest) w =
     (case review_insert tz this data review of
        Inl e \<Rightarrow> (w, Rejected e)
      | Inr sql \<Rightarrow>
          await_then (makeQuery exec this sql w)
            (\<lambda>res w. addReviews exec tz this data rest w))"

text \<open>\<open>addData(data)\<close> (lines 129 to 161).\<close>

definition addData ::
  "('srv \<Rightarrow> query \<Rightarrow> error + 'srv \<times> result) \<Rightarrow> int \<Rightarrow> mysql \<Rightarrow> flow \<Rightarrow> 'srv world \<Rightarrow>
   'srv world \<times> unit promise" where
  "addData exec tz this data w =
     (case flow_insert tz this data of
        Inl e \<Rightarrow> (w, Rejected e)
      | Inr sql \<Rightarrow>
          await_then (makeQuery exec this sql w)
            (\<lambda>res w. addReviews exec tz this data (f_reviews data) w))"

text \<open>
  The value the statement gives to a column: the parameter at the column's place.
\<close>

fun column_value :: "query \<Rightarrow> string \<Rightarrow> jsval option" where
  "column_value (InsertInto d t columns params) column = map_of (zip columns params) column"
| "column_value q column = None"

fun insert_table :: "query \<Rightarrow> string option" where
  "insert_table (InsertInto d t columns params) = Some t"
| "insert_table q = None"

text \<open>
  A server that has accepted the statements of a list in order, each on the state left
  by the one before: the state it is left in, or the first error.
\<close>

fun committed ::
  "('srv \<Rightarrow> query \<Rightarrow> error + 'srv \<times> result) \<Rightarrow> 'srv \<Rightarrow> query list \<Rightarrow> error + 'srv" where
  "committed exec srv [] = Inr srv"
| "committed exec srv (q # qs) =
     (case exec srv q of Inl e \<Rightarrow> Inl e | Inr (srv', res) \<Rightarrow> committed exec srv' qs)"

section \<open>A MySQL server\<close>

text \<open>
  The driver's functions above take the server as a parameter. This section gives one:
  a model of a MySQL server for the six statements, to run the driver on. A server
  holds databases by name, each holding tables by name, each a list of rows in
  insertion order; \<open>selected\<close> is the default database of the connection.
\<close>

record mysqld =
  databases :: "(string \<times> (string \<times> jsval list list) list) list"
  selected :: "string option"

text \<open>
  The pattern matching of \<open>LIKE\<close>: \<open>%\<close> matches any run of characters,
  \<open>_\<close> matches any one character, every other character matches itself.
\<close>

fun like :: "string \<Rightarrow> string \<Rightarrow> bool" where
  "like [] s = (s = [])"
| "like (p # ps) [] = (p = CHR ''%'' \<and> like ps [])"
| "like (p # ps) (c # cs) =
     (if p = CHR ''%'' then like ps (c # cs) \<or> like (p # ps) cs
      else (p = CHR ''_'' \<or> p = c) \<and> like ps cs)"

definition on_database ::
  "string \<Rightarrow> ((string \<times> jsval list list) list \<Rightarrow> (string \<times> jsval list list) list) \<Rightarrow>
   mysqld \<Rightarrow> mysqld" where
  "on_database d change srv =
     srv\<lparr>databases := map (\<lambda>(n, tables). if n = d then (n, change tables) else (n, tables))
        (databases srv)\<rparr>"

text \<open>
  Modelled from the spec: the key of the two tables, which \<open>sql-tables.json\<close>
  declares and which is not among the sources. The spec calls \<open>id\<close> a unique
  identifier; \<open>id\<close> is the first column of both inserts, so an insert whose first
  value is already the first value of a row of the table is refused.
\<close>

definition duplicate_key :: "jsval list \<Rightarrow> jsval list list \<Rightarrow> bool" where
  "duplicate_key params rows = (take 1 params \<in> set (map (take 1) rows))"

text \<open>
  One statement on the server: the error the server answers with, named by its MySQL
  code, or the new state and the result. A statement that fails changes nothing.
\<close>

fun mysqld_exec :: "mysqld \<Rightarrow> query \<Rightarrow> error + mysqld \<times> result" where
  "mysqld_exec srv (ShowDatabasesLike p) =
     Inr (srv, Rows (filter (like p) (map fst (databases srv))))"
| "mysqld_exec srv (DropDatabase d) =
     (if d \<in> set (map fst (databases srv))
      then Inr (srv\<lparr>databases := filter (\<lambda>(n, tables). n \<noteq> d) (databases srv),
                    selected := (if selected srv = Some d then None else selected srv)\<rparr>,
                OkPacket)
      else Inl (DriverError ''ER_DB_DROP_EXISTS''))"
| "mysqld_exec srv (CreateDatabase d) =
     (if d \<in> set (map fst (databases srv)) then Inl (DriverError ''ER_DB_CREATE_EXISTS'')
      else Inr (srv\<lparr>databases := databases srv @ [(d, [])]\<rparr>, OkPacket))"
| "mysqld_exec srv (Use d) =
     (if d \<in> set (map fst (databases srv)) then Inr (srv\<lparr>selected := Some d\<rparr>, OkPacket)
      else Inl (DriverError ''ER_BAD_DB_ERROR''))"
| "mysqld_exec srv (CreateTable t) =
     (case selected srv of
        None \<Rightarrow> Inl (DriverError ''ER_NO_DB_ERROR'')
      | Some d \<Rightarrow>
          (case map_of (databases srv) d of
             None \<Rightarrow> Inl (DriverError ''ER_BAD_DB_ERROR'')
           | Some tables \<Rightarrow>
               if t \<in> set (map fst tables) then Inl (DriverError ''ER_TABLE_EXISTS_ERROR'')
               else Inr (on_database d (\<lambda>tables. tables @ [(t, [])]) srv, OkPacket)))"
| "mysqld_exec srv (InsertInto d t columns params) =
     (case map_of (databases srv) d of
        None \<Rightarrow> Inl (DriverError ''ER_BAD_DB_ERROR'')
      | Some tables \<Rightarrow>
          (case map_of tables t of
             None \<Rightarrow> Inl (DriverError ''ER_NO_SUCH_TABLE'')
           | Some rows \<Rightarrow>
               if duplicate_key params rows then Inl (DriverError ''ER_DUP_ENTRY'')
               else Inr (on_database d
                           (map (\<lambda>(n, rows). if n = t then (n, rows @ [params]) else (n, rows)))
                           srv,
                         OkPacket)))"

text \<open>The rows of a table, if the database and the table exist.\<close>

definition table_rows :: "mysqld \<Rightarrow> string \<Rightarrow> string \<Rightarrow> jsval list list option" where
  "table_rows srv d t =
     (case map_of (databases srv) d of None \<Rightarrow> None | Some tables \<Rightarrow> map_of tables t)"

text \<open>The state \<open>setup\<close> is meant to leave the database in: two empty tables.\<close>

definition fresh_schema :: "(string \<times> jsval list list) list" where
  "fresh_schema = [(''flows'', []), (''reviews'', [])]"

section \<open>Sample runs\<close>

text \<open>An object as \<open>connect\<close> leaves it, for a given database name.\<close>

definition connected :: "string \<Rightarrow> mysql" where
  "connected name =
     \<lparr>db = Some \<lparr>conn_host = ''localhost'', conn_user = ''root'', conn_password = []\<rparr>,
      dbName = Some name\<rparr>"

text \<open>
  A review and a flow to insert, and a server set up for the default database name.
\<close>

definition sample_review :: "int \<Rightarrow> review" where
  "sample_review n =
     \<lparr>r_id = JNum n, r_user_id = JNum 7, r_comment = JStr ''ok'', r_rating = JNum 4,
      r_created = 1685629800000, r_modified = 1685629800000\<rparr>"

definition sample_flow :: "review list \<Rightarrow> flow" where
  "sample_flow rs =
     \<lparr>f_id = JNum 42, f_user_id = JNum 7, f_category_id = JNum 3, f_title = JStr ''t'',
      f_description = JStr ''d'', f_downloads = JNum 10, f_featured = JBool True,
      f_created = 1685629800000, f_modified = 1685629800000,
      f_uploadVersion = JNum 1, f_dataVersion = JNum 2, f_b64Data = JStr ''AAAA'',
      f_reviews = rs\<rparr>"

definition ready_server :: mysqld where
  "ready_server =
     \<lparr>databases = [(''automate-scanner'', fresh_schema)],
      selected = Some ''automate-scanner''\<rparr>"

definition ready_world :: "mysqld world" where
  "ready_world = \<lparr>server = ready_server, issued = []\<rparr>"

text \<open>
  The statements a call has sent: what \<open>issued\<close> holds after the call beyond what
  it held before.
\<close>

definition sent_by :: "'srv world \<Rightarrow> 'srv world \<Rightarrow> query list" where
  "sent_by before after = drop (length (issued before)) (issued after)"

text \<open>
  The statements \<open>addData\<close> builds for the sample flow and the sample review
  where local time is UTC, and the server once the flow and the reviews 1 and 2 are in.
\<close>

definition sample_flow_row :: "jsval list" where
  "sample_flow_row =
     [JNum 42, JNum 7, JNum 3, JStr ''t'', JStr ''d'', JNum 10, JNum 1,
      JStr ''2023-06-01 14:30:00'', JStr ''2023-06-01 14:30:00'', JNum 1, JNum 2,
      JStr ''AAAA'']"

definition sample_review_row :: "int \<Rightarrow> jsval list" where
  "sample_review_row n =
     [JNum n, JNum 7, JNum 42, JStr ''ok'', JNum 4, JStr ''2023-06-01 14:30:00'',
      JStr ''2023-06-01 14:30:00'']"

definition sample_flow_insert :: query where
  "sample_flow_insert = InsertInto ''automate-scanner'' ''flows'' flow_columns sample_flow_row"

definition sample_review_insert :: "int \<Rightarrow> query" where
  "sample_review_insert n =
     InsertInto ''automate-scanner'' ''reviews'' review_columns (sample_review_row n)"

definition stored_server :: mysqld where
  "stored_server =
     \<lparr>databases =
        [(''automate-scanner'',
          [(''flows'', [sample_flow_row]),
           (''reviews'', [sample_review_row 1, sample_review_row 2])])],
      selected = Some ''automate-scanner''\<rparr>"

section \<open>The document driver of \<open>src/databases/Database.js\<close>\<close>

text \<open>
  A MongoDB server: databases by name, each holding collections by name, each a list
  of documents. The object of class \<open>Mongo\<close> has one field, \<open>this.db\<close>, the
  handle of the database it was connected to (its name here), absent before
  \<open>connect\<close>.
\<close>

record mongod =
  collections :: "(string \<times> (string \<times> jsval list) list) list"

record mongo =
  mongo_db :: "string option"

text \<open>The number of documents a server holds, over all databases and collections.\<close>

definition document_count :: "mongod \<Rightarrow> nat" where
  "document_count srv =
     sum_list (map (\<lambda>(d, cs). sum_list (map (\<lambda>(c, docs). length docs) cs)) (collections srv))"

text \<open>
  \<open>connect(uri, options, dbName)\<close> of the class \<open>Mongo\<close> (lines 189 to 199).
  \<open>client_connect\<close> is \<open>MongoClient.connect\<close>, awaited: its error rejects the
  call. Taking the handle with \<open>connection.db(dbName)\<close> sends nothing to the server.
\<close>

definition connect_mongo ::
  "(string \<Rightarrow> (string \<times> jsval) list \<Rightarrow> error option) \<Rightarrow> string \<Rightarrow> (string \<times> jsval) list \<Rightarrow>
   string \<Rightarrow> mongo \<Rightarrow> mongo \<times> string promise" where
  "connect_mongo client_connect uri options name this =
     (case client_connect uri
         (options @ [(''useNewUrlParser'', JBool True), (''useUnifiedTopology'', JBool True)]) of
        Some e \<Rightarrow> (this, Rejected e)
      | None \<Rightarrow> (this\<lparr>mongo_db := Some name\<rparr>, Fulfilled name))"

text \<open>
  \<open>setup()\<close> of the class \<open>Mongo\<close> (lines 206 to 208): the body is empty. The
  call returns the object and the server as they were and a promise fulfilled with
  \<open>undefined\<close>.
\<close>

definition setup_mongo :: "mongo \<Rightarrow> mongod \<Rightarrow> (mongo \<times> mongod) \<times> unit promise" where
  "setup_mongo this srv = ((this, srv), Fulfilled ())"

text \<open>A server that holds three documents in two collections.\<close>

definition sample_mongod :: mongod where
  "sample_mongod =
     \<lparr>collections =
        [(''automate-scanner'',
          [(''flows'', [JObj [(''id'', JNum 1)], JObj [(''id'', JNum 2)]]),
           (''reviews'', [JObj [(''id'', JNum 9)]])])]\<rparr>"

text \<open>
  Servers for database names with an underscore: one that holds only a database of
  the default name, and one that holds both that and a populated database of the
  underscore name.
\<close>

definition other_world :: "mysqld world" where
  "other_world =
     \<lparr>server = \<lparr>databases = [(''automate-scanner'', fresh_schema)], selected = None\<rparr>,
      issued = []\<rparr>"

definition both_world :: "mysqld world" where
  "both_world =
     \<lparr>server =
        \<lparr>databases =
           [(''automate-scanner'', fresh_schema),
            (''automate_scanner'', [(''flows'', [sample_flow_row]), (''reviews'', [])])],
         selected = None\<rparr>,
      issued = []\<rparr>"

text \<open>The databases of a list other than the one named \<open>n\<close>.\<close>

definition without :: "string \<Rightarrow> (string \<times> 'a) list \<Rightarrow> (string \<times> 'a) list" where
  "without n dbs = filter (\<lambda>(m, tables). m \<noteq> n) dbs"

section \<open>Properties of the settings page\<close>

lemma js_or_val_blank: "blank v \<Longrightarrow> js_or (val v) stored = stored"
  by (auto simp: blank_def js_or_def)

lemma js_or_val_entered: "s \<noteq> [] \<Longrightarrow> js_or (val (Some s)) stored = JStr s"
  by (simp add: js_or_def)

lemma empty_or_empty: "empty_or (JStr []) stored = JStr []"
  by (simp add: empty_or_def)

lemma empty_or_missing: "empty_or JUndefined stored = stored"
  by (simp add: empty_or_def js_or_def)

lemma empty_or_val:
  "empty_or (val v) stored =
     (case v of None \<Rightarrow> stored | Some s \<Rightarrow> JStr s)"
  by (cases v) (auto simp: empty_or_def js_or_def)

text \<open>
  Claim C10. For every stored settings object and every form state,
  \<open>getEnteredSettings\<close> returns the stored value of the database type, the SQL
  host, the SQL database name, the Mongo URI, the Mongo database name, the cores and
  the server port whenever the field is empty or missing. The SQL user and the SQL
  password are the exception: an empty input gives the empty string, whatever is
  stored, and only a missing input gives the stored value.
\<close>

theorem getEnteredSettings_fallback:
  "(blank (in_database_type f) \<longrightarrow> dbType (getEnteredSettings st f) = dbType st) \<and>
   (blank (in_sql_host f) \<longrightarrow> mysql_host (getEnteredSettings st f) = mysql_host st) \<and>
   (blank (in_sql_name f) \<longrightarrow> mysql_dbName (getEnteredSettings st f) = mysql_dbName st) \<and>
   (blank (in_mongo_uri f) \<longrightarrow> mongo_uri (getEnteredSettings st f) = mongo_uri st) \<and>
   (blank (in_mongo_name f) \<longrightarrow> mongo_dbName (getEnteredSettings st f) = mongo_dbName st) \<and>
   (blank (in_scan_cores f) \<longrightarrow> cores (getEnteredSettings st f) = cores st) \<and>
   (blank (in_server_port f) \<longrightarrow> server_port (getEnteredSettings st f) = server_port st) \<and>
   (in_sql_user f = Some [] \<longrightarrow> mysql_user (getEnteredSettings st f) = JStr []) \<and>
   (in_sql_password f = Some [] \<longrightarrow> mysql_password (getEnteredSettings st f) = JStr []) \<and>
   (in_sql_user f = None \<longrightarrow> mysql_user (getEnteredSettings st f) = mysql_user st) \<and>
   (in_sql_password f = None \<longrightarrow>
      mysql_password (getEnteredSettings st f) = mysql_password st)"
  by (simp add: getEnteredSettings_def Let_def js_or_val_blank empty_or_empty
      empty_or_missing)

text \<open>
  The theorem at the default settings, on a form whose fields are all empty (the seven
  fields keep the stored value, the user \<open>root\<close> becomes the empty string) and on
  a form with no field (user and password keep the stored value).
\<close>

theorem getEnteredSettings_fallback_witness:
  "blank (in_database_type empty_form) \<and> blank (in_sql_host empty_form) \<and>
   blank (in_sql_name empty_form) \<and> blank (in_mongo_uri empty_form) \<and>
   blank (in_mongo_name empty_form) \<and> blank (in_scan_cores empty_form) \<and>
   blank (in_server_port empty_form) \<and> in_sql_user empty_form = Some [] \<and>
   in_sql_password empty_form = Some [] \<and>
   dbType (getEnteredSettings default_settings empty_form) = JStr ''sql'' \<and>
   mysql_host (getEnteredSettings default_settings empty_form) = JStr ''localhost'' \<and>
   mysql_dbName (getEnteredSettings default_settings empty_form) = JStr ''automate-scanner'' \<and>
   mongo_uri (getEnteredSettings default_settings empty_form) = JStr ''mongodb://localhost/'' \<and>
   mongo_dbName (getEnteredSettings default_settings empty_form) = JStr ''automate-scanner'' \<and>
   cores (getEnteredSettings default_settings empty_form) = JNum 8 \<and>
   server_port (getEnteredSettings default_settings empty_form) = JNum 8080 \<and>
   mysql_user (getEnteredSettings default_settings empty_form) = JStr [] \<and>
   mysql_password (getEnteredSettings default_settings empty_form) = JStr [] \<and>
   in_sql_user absent_form = None \<and> in_sql_password absent_form = None \<and>
   mysql_user (getEnteredSettings default_settings absent_form) = JStr ''root'' \<and>
   mysql_password (getEnteredSettings default_settings absent_form) = JStr []"
  using getEnteredSettings_fallback [of empty_form default_settings]
    getEnteredSettings_fallback [of absent_form default_settings]
  by (simp add: blank_def empty_form_def absent_form_def default_settings_def)

section \<open>Properties of the observer\<close>
















section \<open>Properties of the relational driver\<close>

lemma makeQuery_disconnected:
  "db this = None \<Longrightarrow> makeQuery exec this q w = (w, Rejected TypeError)"
  by (simp add: makeQuery_def)

lemma makeQuery_failed:
  "db this = Some conn \<Longrightarrow> exec (server w) q = Inl e \<Longrightarrow>
   makeQuery exec this q w = (w\<lparr>issued := issued w @ [q]\<rparr>, Rejected e)"
  by (simp add: makeQuery_def query_callback_def)

lemma makeQuery_done:
  "db this = Some conn \<Longrightarrow> exec (server w) q = Inr (srv, res) \<Longrightarrow>
   makeQuery exec this q w = (w\<lparr>server := srv, issued := issued w @ [q]\<rparr>, Fulfilled res)"
  by (simp add: makeQuery_def query_callback_def)

lemma await_then_simps:
  "await_then (w, Fulfilled v) k = k v w"
  "await_then (w, Rejected e) k = (w, Rejected e)"
  "await_then (w, Pending) k = (w, Pending)"
  by (simp_all add: await_then_def)

lemma committed_append:
  "committed exec srv (qs @ [q]) =
     (case committed exec srv qs of
        Inl e \<Rightarrow> Inl e
      | Inr srv' \<Rightarrow> (case exec srv' q of Inl e \<Rightarrow> Inl e | Inr (srv'', res) \<Rightarrow> Inr srv''))"
  by (induction qs arbitrary: srv) (auto split: sum.splits)

text \<open>What one turn of the loop and the rest of it send.\<close>

lemma addReviews_sent:
  "\<exists>sent. issued (fst (addReviews exec tz this data rs w)) = issued w @ sent \<and>
      prefix (map Inr sent) (map (review_insert tz this data) rs) \<and>
      (\<exists>srv. committed exec (server w) (butlast sent) = Inr srv) \<and>
      (snd (addReviews exec tz this data rs w) = Fulfilled () \<longrightarrow>
         map Inr sent = map (review_insert tz this data) rs \<and>
         committed exec (server w) sent = Inr (server (fst (addReviews exec tz this data rs w))))"
proof (induction rs arbitrary: w)
  case Nil
  show ?case by simp
next
  case (Cons r rs)
  show ?case
  proof (cases "review_insert tz this data r")
    case (Inl e)
    then show ?thesis by simp
  next
    case (Inr q)
    show ?thesis
    proof (cases "db this")
      case None
      with Inr show ?thesis by (simp add: makeQuery_disconnected await_then_simps)
    next
      case (Some conn)
      show ?thesis
      proof (cases "exec (server w) q")
        case (Inl e)
        with Inr Some have "addReviews exec tz this data (r # rs) w =
            (w\<lparr>issued := issued w @ [q]\<rparr>, Rejected e)"
          by (simp add: makeQuery_failed await_then_simps)
        with Inr show ?thesis by simp
      next
        case run: (Inr ok)
        obtain srv res where ok: "ok = (srv, res)" by (cases ok)
        let ?w1 = "w\<lparr>server := srv, issued := issued w @ [q]\<rparr>"
        have step: "addReviews exec tz this data (r # rs) w =
            addReviews exec tz this data rs ?w1"
          using Inr Some run ok by (simp add: makeQuery_done await_then_simps)
        from Cons.IH [of ?w1] obtain sent srv' where
          sent: "issued (fst (addReviews exec tz this data rs ?w1)) = issued ?w1 @ sent"
            "prefix (map Inr sent) (map (review_insert tz this data) rs)"
            "committed exec (server ?w1) (butlast sent) = Inr srv'"
            "snd (addReviews exec tz this data rs ?w1) = Fulfilled () \<longrightarrow>
               map Inr sent = map (review_insert tz this data) rs \<and>
               committed exec (server ?w1) sent =
                 Inr (server (fst (addReviews exec tz this data rs ?w1)))"
          by blast
        have "issued (fst (addReviews exec tz this data (r # rs) w)) = issued w @ (q # sent)"
          using sent(1) step by simp
        moreover have "prefix (map Inr (q # sent))
            (map (review_insert tz this data) (r # rs))"
          using sent(2) Inr by simp
        moreover have "\<exists>s. committed exec (server w) (butlast (q # sent)) = Inr s"
          using sent(3) run ok by (cases sent) simp_all
        moreover have "snd (addReviews exec tz this data (r # rs) w) = Fulfilled () \<longrightarrow>
            map Inr (q # sent) = map (review_insert tz this data) (r # rs) \<and>
            committed exec (server w) (q # sent) =
              Inr (server (fst (addReviews exec tz this data (r # rs) w)))"
          using sent(4) step Inr run ok by simp
        ultimately show ?thesis
        by - (rule exI [of _ "q # sent"], intro conjI, assumption+)
      qed
    qed
  qed
qed


lemma addData_sent:
  "\<exists>sent. issued (fst (addData exec tz this data w)) = issued w @ sent \<and>
      prefix (map Inr sent)
        (flow_insert tz this data # map (review_insert tz this data) (f_reviews data)) \<and>
      (\<exists>srv. committed exec (server w) (butlast sent) = Inr srv) \<and>
      (snd (addData exec tz this data w) = Fulfilled () \<longrightarrow>
         map Inr sent =
           flow_insert tz this data # map (review_insert tz this data) (f_reviews data) \<and>
         committed exec (server w) sent = Inr (server (fst (addData exec tz this data w))))"
proof (cases "flow_insert tz this data")
  case (Inl e)
  then show ?thesis by (simp add: addData_def)
next
  case (Inr q)
  show ?thesis
  proof (cases "db this")
    case None
    with Inr show ?thesis
      by (simp add: addData_def makeQuery_disconnected await_then_simps)
  next
    case (Some conn)
    show ?thesis
    proof (cases "exec (server w) q")
      case (Inl e)
      with Inr Some have "addData exec tz this data w =
          (w\<lparr>issued := issued w @ [q]\<rparr>, Rejected e)"
        by (simp add: addData_def makeQuery_failed await_then_simps)
      with Inr show ?thesis by simp
    next
      case run: (Inr ok)
      obtain srv res where ok: "ok = (srv, res)" by (cases ok)
      let ?w1 = "w\<lparr>server := srv, issued := issued w @ [q]\<rparr>"
      let ?rs = "f_reviews data"
      have step: "addData exec tz this data w = addReviews exec tz this data ?rs ?w1"
        using Inr Some run ok by (simp add: addData_def makeQuery_done await_then_simps)
      from addReviews_sent [of exec tz this data ?rs ?w1] obtain sent srv' where
        sent: "issued (fst (addReviews exec tz this data ?rs ?w1)) = issued ?w1 @ sent"
          "prefix (map Inr sent) (map (review_insert tz this data) ?rs)"
          "committed exec (server ?w1) (butlast sent) = Inr srv'"
          "snd (addReviews exec tz this data ?rs ?w1) = Fulfilled () \<longrightarrow>
             map Inr sent = map (review_insert tz this data) ?rs \<and>
             committed exec (server ?w1) sent =
               Inr (server (fst (addReviews exec tz this data ?rs ?w1)))"
        by blast
      have "issued (fst (addData exec tz this data w)) = issued w @ (q # sent)"
        using sent(1) step by simp
      moreover have "prefix (map Inr (q # sent))
          (flow_insert tz this data # map (review_insert tz this data) ?rs)"
        using sent(2) Inr by simp
      moreover have "\<exists>s. committed exec (server w) (butlast (q # sent)) = Inr s"
        using sent(3) run ok by (cases sent) simp_all
      moreover have "snd (addData exec tz this data w) = Fulfilled () \<longrightarrow>
          map Inr (q # sent) =
            flow_insert tz this data # map (review_insert tz this data) ?rs \<and>
          committed exec (server w) (q # sent) =
            Inr (server (fst (addData exec tz this data w)))"
        using sent(4) step Inr run ok by simp
      ultimately show ?thesis
        by - (rule exI [of _ "q # sent"], intro conjI, assumption+)
    qed
  qed
qed

lemma sent_by_append: "issued w' = issued w @ sent \<Longrightarrow> sent_by w w' = sent"
  by (simp add: sent_by_def)

text \<open>
  Claim C1. For every server, flow record and list of reviews, the statements one call
  of \<open>addData\<close> sends are an initial part of the list that holds the Flow insert
  first and then the Review inserts of the reviews in the order of the input array: the
  Flow insert comes before any Review insert and no review is skipped or reordered.
  The inserts are sequential: all statements sent but the last have been accepted by
  the server, each on the state left by the one before, when the last one is sent. When
  the call is fulfilled the statements sent are the whole list and the server is in the
  state in which it has accepted them all.
\<close>

theorem addData_order:
  "issued (fst (addData exec tz this data w)) =
     issued w @ sent_by w (fst (addData exec tz this data w)) \<and>
   prefix (map Inr (sent_by w (fst (addData exec tz this data w))))
     (flow_insert tz this data # map (review_insert tz this data) (f_reviews data)) \<and>
   (\<exists>srv. committed exec (server w)
      (butlast (sent_by w (fst (addData exec tz this data w)))) = Inr srv) \<and>
   (snd (addData exec tz this data w) = Fulfilled () \<longrightarrow>
      map Inr (sent_by w (fst (addData exec tz this data w))) =
        flow_insert tz this data # map (review_insert tz this data) (f_reviews data) \<and>
      committed exec (server w) (sent_by w (fst (addData exec tz this data w))) =
        Inr (server (fst (addData exec tz this data w))))"
proof -
  let ?w' = "fst (addData exec tz this data w)"
  let ?plan = "flow_insert tz this data # map (review_insert tz this data) (f_reviews data)"
  from addData_sent [of exec tz this data w] obtain sent where
    both: "issued ?w' = issued w @ sent \<and>
      prefix (map Inr sent) ?plan \<and>
      (\<exists>srv. committed exec (server w) (butlast sent) = Inr srv) \<and>
      (snd (addData exec tz this data w) = Fulfilled () \<longrightarrow>
         map Inr sent = ?plan \<and> committed exec (server w) sent = Inr (server ?w'))"
    by (rule exE)
  from both have sent: "issued ?w' = issued w @ sent"
    by (rule conjunct1)
  then have eq: "sent_by w ?w' = sent"
    by (rule sent_by_append)
  from both show ?thesis
    unfolding eq .
qed

lemma review_insert_flow_id:
  "review_insert tz this data r = Inr q \<Longrightarrow>
   insert_table q = Some ''reviews'' \<and> column_value q ''flow_id'' = Some (f_id data)"
  by (auto simp: review_insert_def review_columns_def split: sum.splits)

lemma flow_insert_id:
  "flow_insert tz this data = Inr q \<Longrightarrow>
   insert_table q = Some ''flows'' \<and> column_value q ''id'' = Some (f_id data)"
  by (auto simp: flow_insert_def flow_columns_def split: sum.splits)

text \<open>
  Claim C2. Every statement one call of \<open>addData\<close> sends is either the insert
  into \<open>flows\<close> whose \<open>id\<close> is the \<open>id\<close> of the call's flow record, or an
  insert into \<open>reviews\<close> whose \<open>flow_id\<close> is that same \<open>id\<close>: the value is
  read from the flow record and not from the review, so no review row of the call
  refers to a flow of another call.
\<close>

theorem addData_flow_id:
  "(\<forall>q \<in> set (sent_by w (fst (addData exec tz this data w))).
      insert_table q = Some ''flows'' \<and> column_value q ''id'' = Some (f_id data) \<or>
      insert_table q = Some ''reviews'' \<and> column_value q ''flow_id'' = Some (f_id data)) \<and>
   (\<forall>q \<in> set (sent_by w (fst (addData exec tz this data w))).
      insert_table q = Some ''reviews'' \<longrightarrow> column_value q ''flow_id'' = Some (f_id data))"
proof -
  let ?sent = "sent_by w (fst (addData exec tz this data w))"
  have known: "insert_table q = Some ''flows'' \<and> column_value q ''id'' = Some (f_id data) \<or>
      insert_table q = Some ''reviews'' \<and> column_value q ''flow_id'' = Some (f_id data)"
    if "q \<in> set ?sent" for q
  proof -
    from addData_sent [of exec tz this data w] obtain sent where
      sent: "issued (fst (addData exec tz this data w)) = issued w @ sent"
      and pre: "prefix (map Inr sent)
        (flow_insert tz this data # map (review_insert tz this data) (f_reviews data))"
      by blast
    have "?sent = sent" using sent by (rule sent_by_append)
    with that have "Inr q \<in> set (map Inr sent)" by simp
    with pre have "Inr q \<in> set (flow_insert tz this data #
        map (review_insert tz this data) (f_reviews data))"
      using set_mono_prefix by blast
    then consider "flow_insert tz this data = Inr q"
      | r where "review_insert tz this data r = Inr q"
      by auto
    then show ?thesis
      using flow_insert_id review_insert_flow_id by cases blast+
  qed
  show ?thesis
  proof (intro conjI ballI impI)
    fix q assume "q \<in> set ?sent"
    then show "insert_table q = Some ''flows'' \<and> column_value q ''id'' = Some (f_id data) \<or>
        insert_table q = Some ''reviews'' \<and> column_value q ''flow_id'' = Some (f_id data)"
      by (rule known)
  next
    fix q assume "q \<in> set ?sent" and reviews: "insert_table q = Some ''reviews''"
    from known [OF this(1)] reviews
    show "column_value q ''flow_id'' = Some (f_id data)" by auto
  qed
qed


lemma addReviews_fails_at:
  "db this = Some conn \<Longrightarrow>
   map (review_insert tz this data) before = map Inr qs \<Longrightarrow>
   review_insert tz this data r = Inr q \<Longrightarrow>
   committed exec (server w) qs = Inr srv \<Longrightarrow>
   exec srv q = Inl e \<Longrightarrow>
   addReviews exec tz this data (before @ r # after) w =
     (w\<lparr>server := srv, issued := issued w @ qs @ [q]\<rparr>, Rejected e)"
proof (induction before arbitrary: qs w)
  case Nil
  then show ?case by (simp add: makeQuery_failed await_then_simps)
next
  case (Cons b before)
  from Cons.prems(2) obtain q0 qs' where qs: "qs = q0 # qs'"
    and b: "review_insert tz this data b = Inr q0"
    and rest: "map (review_insert tz this data) before = map Inr qs'"
    by (cases qs) auto
  from Cons.prems(4) qs obtain srv0 res where
    run: "exec (server w) q0 = Inr (srv0, res)" and after: "committed exec srv0 qs' = Inr srv"
    by (auto split: sum.splits)
  let ?w1 = "w\<lparr>server := srv0, issued := issued w @ [q0]\<rparr>"
  have "addReviews exec tz this data ((b # before) @ r # after) w =
      addReviews exec tz this data (before @ r # after) ?w1"
    using b run Cons.prems(1) by (simp add: makeQuery_done await_then_simps)
  also have "\<dots> = (?w1\<lparr>server := srv, issued := issued ?w1 @ qs' @ [q]\<rparr>, Rejected e)"
    using Cons.IH [of qs' ?w1] Cons.prems(1,3,5) rest after by simp
  finally show ?case using qs by simp
qed

text \<open>
  Claim C6. \<open>addData\<close> is not atomic. Take a connected object and a flow record
  whose Flow insert and Review inserts at the indices below \<open>i\<close> the server accepts
  in turn, leaving it in state \<open>srv\<close>, and whose Review insert at index \<open>i\<close> it
  refuses with error \<open>e\<close>. Then the promise of \<open>addData\<close> is rejected with
  \<open>e\<close>, the server is left in state \<open>srv\<close>, with the flow and the first
  \<open>i\<close> reviews in place, and the refused insert is the last statement sent: nothing
  is rolled back and the reviews after index \<open>i\<close> are not tried.
\<close>

theorem addData_not_atomic:
  assumes "db this = Some conn" and "i < length (f_reviews data)"
    and "flow_insert tz this data = Inr fq"
    and "map (review_insert tz this data) (take i (f_reviews data)) = map Inr rqs"
    and "review_insert tz this data (f_reviews data ! i) = Inr q"
    and "committed exec (server w) (fq # rqs) = Inr srv"
    and "exec srv q = Inl e"
  shows "addData exec tz this data w =
    (w\<lparr>server := srv, issued := issued w @ fq # rqs @ [q]\<rparr>, Rejected e)"
proof -
  from assms(6) obtain srv0 res where
    run: "exec (server w) fq = Inr (srv0, res)" and after: "committed exec srv0 rqs = Inr srv"
    by (auto split: sum.splits)
  let ?w1 = "w\<lparr>server := srv0, issued := issued w @ [fq]\<rparr>"
  let ?rs = "f_reviews data"
  have split: "take i ?rs @ ?rs ! i # drop (Suc i) ?rs = ?rs"
    using assms(2) by (rule id_take_nth_drop [symmetric])
  have "addData exec tz this data w = addReviews exec tz this data ?rs ?w1"
    using assms(1,3) run by (simp add: addData_def makeQuery_done await_then_simps)
  also have "\<dots> = addReviews exec tz this data (take i ?rs @ ?rs ! i # drop (Suc i) ?rs) ?w1"
    by (simp only: split)
  also have "\<dots> = (?w1\<lparr>server := srv, issued := issued ?w1 @ rqs @ [q]\<rparr>, Rejected e)"
    using assms(1,4,5,7) after by (intro addReviews_fails_at) simp_all
  finally show ?thesis by simp
qed


lemma sample_datetime: "mySqlDateTime 0 1685629800000 = Inr ''2023-06-01 14:30:00''"
  by code_simp

lemma sample_flow_insert:
  "flow_insert 0 (connected ''automate-scanner'') (sample_flow rs) = Inr sample_flow_insert"
  by (simp add: flow_insert_def sample_flow_def sample_datetime sample_flow_insert_def
      sample_flow_row_def dbName_text_def connected_def)

lemma sample_review_insert:
  "review_insert 0 (connected ''automate-scanner'') (sample_flow rs) (sample_review n) =
     Inr (sample_review_insert n)"
  by (simp add: review_insert_def sample_flow_def sample_review_def sample_datetime
      sample_review_insert_def sample_review_row_def dbName_text_def connected_def)

lemma sample_reviews: "f_reviews (sample_flow rs) = rs"
  by (simp add: sample_flow_def)

lemma sample_committed:
  "committed mysqld_exec ready_server
     [sample_flow_insert, sample_review_insert 1, sample_review_insert 2] = Inr stored_server"
  by code_simp

lemma sample_duplicate:
  "mysqld_exec stored_server (sample_review_insert 1) = Inl (DriverError ''ER_DUP_ENTRY'')"
  by code_simp

lemma addReviews_fulfilled:
  "db this = Some conn \<Longrightarrow>
   map (review_insert tz this data) rs = map Inr qs \<Longrightarrow>
   committed exec (server w) qs = Inr srv \<Longrightarrow>
   addReviews exec tz this data rs w =
     (w\<lparr>server := srv, issued := issued w @ qs\<rparr>, Fulfilled ())"
proof (induction rs arbitrary: qs w)
  case Nil
  then show ?case by simp
next
  case (Cons r rs)
  from Cons.prems(2) obtain q0 qs' where qs: "qs = q0 # qs'"
    and r: "review_insert tz this data r = Inr q0"
    and rest: "map (review_insert tz this data) rs = map Inr qs'"
    by (cases qs) auto
  from Cons.prems(3) qs obtain srv0 res where
    run: "exec (server w) q0 = Inr (srv0, res)" and after: "committed exec srv0 qs' = Inr srv"
    by (auto split: sum.splits)
  let ?w1 = "w\<lparr>server := srv0, issued := issued w @ [q0]\<rparr>"
  have "addReviews exec tz this data (r # rs) w = addReviews exec tz this data rs ?w1"
    using r run Cons.prems(1) by (simp add: makeQuery_done await_then_simps)
  also have "\<dots> = (?w1\<lparr>server := srv, issued := issued ?w1 @ qs'\<rparr>, Fulfilled ())"
    using Cons.IH [of qs' ?w1] Cons.prems(1) rest after by simp
  finally show ?case using qs by simp
qed

lemma addData_fulfilled:
  assumes "db this = Some conn"
    and "flow_insert tz this data = Inr fq"
    and "map (review_insert tz this data) (f_reviews data) = map Inr rqs"
    and "committed exec (server w) (fq # rqs) = Inr srv"
  shows "addData exec tz this data w =
    (w\<lparr>server := srv, issued := issued w @ fq # rqs\<rparr>, Fulfilled ())"
proof -
  from assms(4) obtain srv0 res where
    run: "exec (server w) fq = Inr (srv0, res)" and after: "committed exec srv0 rqs = Inr srv"
    by (auto split: sum.splits)
  let ?w1 = "w\<lparr>server := srv0, issued := issued w @ [fq]\<rparr>"
  have "addData exec tz this data w = addReviews exec tz this data (f_reviews data) ?w1"
    using assms(1,2) run by (simp add: addData_def makeQuery_done await_then_simps)
  also have "\<dots> = (?w1\<lparr>server := srv, issued := issued ?w1 @ rqs\<rparr>, Fulfilled ())"
    using assms(1,3) after by (intro addReviews_fulfilled) simp_all
  finally show ?thesis by simp
qed

lemma sample_connected:
  "db (connected name) =
     Some \<lparr>conn_host = ''localhost'', conn_user = ''root'', conn_password = []\<rparr>"
  by (simp add: connected_def)

lemma sample_fulfilled:
  "addData mysqld_exec 0 (connected ''automate-scanner'')
     (sample_flow [sample_review 1, sample_review 2]) ready_world =
   (\<lparr>server = stored_server,
      issued = [sample_flow_insert, sample_review_insert 1, sample_review_insert 2]\<rparr>,
    Fulfilled ())"
proof -
  let ?data = "sample_flow [sample_review 1, sample_review 2]"
  have reviews: "map (review_insert 0 (connected ''automate-scanner'') ?data) (f_reviews ?data) =
      map Inr [sample_review_insert 1, sample_review_insert 2]"
    by (simp add: sample_reviews sample_review_insert)
  have run: "committed mysqld_exec (server ready_world)
      (sample_flow_insert # [sample_review_insert 1, sample_review_insert 2]) =
      Inr stored_server"
    by (simp add: ready_world_def sample_committed del: committed.simps)
  from addData_fulfilled [OF sample_connected sample_flow_insert reviews run]
  show ?thesis by (simp add: ready_world_def)
qed

text \<open>The theorem on the sample flow with the reviews 1 and 2.\<close>

theorem addData_order_witness:
  "snd (addData mysqld_exec 0 (connected ''automate-scanner'')
     (sample_flow [sample_review 1, sample_review 2]) ready_world) = Fulfilled () \<and>
   sent_by ready_world (fst (addData mysqld_exec 0 (connected ''automate-scanner'')
     (sample_flow [sample_review 1, sample_review 2]) ready_world)) =
     [sample_flow_insert, sample_review_insert 1, sample_review_insert 2]"
proof -
  let ?run = "addData mysqld_exec 0 (connected ''automate-scanner'')
     (sample_flow [sample_review 1, sample_review 2]) ready_world"
  have "map Inr (sent_by ready_world (fst ?run)) =
      (map Inr [sample_flow_insert, sample_review_insert 1, sample_review_insert 2]
        :: (error + query) list)"
    using addData_order [of mysqld_exec 0 "connected ''automate-scanner''"
        "sample_flow [sample_review 1, sample_review 2]" ready_world]
    by (simp add: sample_fulfilled sample_flow_insert sample_review_insert sample_reviews)
  then have "sent_by ready_world (fst ?run) =
      [sample_flow_insert, sample_review_insert 1, sample_review_insert 2]"
    by (simp only: inj_map_eq_map [OF inj_Inr])
  then show ?thesis by (simp add: sample_fulfilled)
qed


lemma sample_sent:
  "sent_by ready_world (fst (addData mysqld_exec 0 (connected ''automate-scanner'')
     (sample_flow [sample_review 1, sample_review 2]) ready_world)) =
   [sample_flow_insert, sample_review_insert 1, sample_review_insert 2]"
  unfolding sent_by_def sample_fulfilled by (simp add: ready_world_def)

text \<open>The theorem on the second review of the sample flow.\<close>

theorem addData_flow_id_witness:
  "sample_review_insert 2 \<in> set (sent_by ready_world
     (fst (addData mysqld_exec 0 (connected ''automate-scanner'')
        (sample_flow [sample_review 1, sample_review 2]) ready_world))) \<and>
   insert_table (sample_review_insert 2) = Some ''reviews'' \<and>
   column_value (sample_review_insert 2) ''flow_id'' =
     Some (f_id (sample_flow [sample_review 1, sample_review 2])) \<and>
   f_id (sample_flow [sample_review 1, sample_review 2]) = JNum 42"
proof -
  let ?data = "sample_flow [sample_review 1, sample_review 2]"
  let ?sent = "sent_by ready_world
     (fst (addData mysqld_exec 0 (connected ''automate-scanner'') ?data ready_world))"
  have sent: "sample_review_insert 2 \<in> set ?sent"
    by (simp add: sample_sent)
  have table: "insert_table (sample_review_insert 2) = Some ''reviews''"
    by (simp add: sample_review_insert_def)
  from addData_flow_id [of ready_world mysqld_exec 0 "connected ''automate-scanner''" ?data]
  have "\<forall>q \<in> set ?sent.
      insert_table q = Some ''reviews'' \<longrightarrow> column_value q ''flow_id'' = Some (f_id ?data)"
    by (rule conjunct2)
  with sent table have "column_value (sample_review_insert 2) ''flow_id'' = Some (f_id ?data)"
    by blast
  with sent table show ?thesis by (simp add: sample_flow_def)
qed

text \<open>
  The theorem on a flow whose third review repeats the id of the first: the server
  refuses the third Review insert as a duplicate, and the flow row and two review rows
  stay in the tables.
\<close>

theorem addData_not_atomic_witness:
  "committed mysqld_exec (server ready_world)
     [sample_flow_insert, sample_review_insert 1, sample_review_insert 2] = Inr stored_server \<and>
   mysqld_exec stored_server (sample_review_insert 1) = Inl (DriverError ''ER_DUP_ENTRY'') \<and>
   addData mysqld_exec 0 (connected ''automate-scanner'')
     (sample_flow [sample_review 1, sample_review 2, sample_review 1, sample_review 5])
     ready_world =
   (\<lparr>server = stored_server,
      issued = [sample_flow_insert, sample_review_insert 1, sample_review_insert 2,
        sample_review_insert 1]\<rparr>,
    Rejected (DriverError ''ER_DUP_ENTRY'')) \<and>
   table_rows stored_server ''automate-scanner'' ''flows'' = Some [sample_flow_row] \<and>
   table_rows stored_server ''automate-scanner'' ''reviews'' =
     Some [sample_review_row 1, sample_review_row 2]"
proof -
  let ?rs = "[sample_review 1, sample_review 2, sample_review 1, sample_review 5]"
  let ?data = "sample_flow ?rs"
  have index: "2 < length (f_reviews ?data)"
    by (simp add: sample_reviews)
  have before: "map (review_insert 0 (connected ''automate-scanner'') ?data)
      (take 2 (f_reviews ?data)) = map Inr [sample_review_insert 1, sample_review_insert 2]"
    by (simp add: sample_reviews sample_review_insert)
  have failing: "review_insert 0 (connected ''automate-scanner'') ?data (f_reviews ?data ! 2) =
      Inr (sample_review_insert 1)"
    by (simp add: sample_reviews sample_review_insert)
  have run: "committed mysqld_exec (server ready_world)
      (sample_flow_insert # [sample_review_insert 1, sample_review_insert 2]) =
      Inr stored_server"
    by (simp add: ready_world_def sample_committed del: committed.simps)
  have rows: "table_rows stored_server ''automate-scanner'' ''flows'' = Some [sample_flow_row] \<and>
      table_rows stored_server ''automate-scanner'' ''reviews'' =
        Some [sample_review_row 1, sample_review_row 2]"
    by (simp add: table_rows_def stored_server_def)
  from addData_not_atomic [OF sample_connected index sample_flow_insert before failing run
      sample_duplicate]
  have "addData mysqld_exec 0 (connected ''automate-scanner'') ?data ready_world =
      (\<lparr>server = stored_server,
         issued = [sample_flow_insert, sample_review_insert 1, sample_review_insert 2,
           sample_review_insert 1]\<rparr>,
       Rejected (DriverError ''ER_DUP_ENTRY''))"
    by (simp add: ready_world_def)
  with run sample_duplicate rows show ?thesis
    by (simp del: committed.simps mysqld_exec.simps)
qed

section \<open>Properties of the document driver\<close>

text \<open>
  Claim C5. \<open>setup\<close> of the class \<open>Mongo\<close> performs no destructive action: for
  every object and every server state the call is fulfilled and leaves the object and
  the server as they were, so every collection and document is still there and the
  number of documents after the call is at least the number before it.
\<close>

theorem setup_mongo_keeps_documents:
  "fst (setup_mongo this srv) = (this, srv) \<and>
   snd (setup_mongo this srv) = Fulfilled () \<and>
   document_count srv \<le> document_count (snd (fst (setup_mongo this srv))) \<and>
   collections (snd (fst (setup_mongo this srv))) = collections srv"
  by (simp add: setup_mongo_def)

text \<open>The theorem on a server that holds three documents.\<close>

theorem setup_mongo_keeps_documents_witness:
  "document_count sample_mongod = 3 \<and>
   document_count
     (snd (fst (setup_mongo \<lparr>mongo_db = Some ''automate-scanner''\<rparr> sample_mongod))) = 3"
  using setup_mongo_keeps_documents [of "\<lparr>mongo_db = Some ''automate-scanner''\<rparr>" sample_mongod]
  by (simp add: document_count_def sample_mongod_def)

section \<open>Connecting\<close>

lemma connect_success:
  "connect (\<lambda>conn. None) host user password name this =
     (this\<lparr>db := Some \<lparr>conn_host = host, conn_user = user, conn_password = password\<rparr>,
        dbName := Some name\<rparr>,
      Fulfilled \<lparr>conn_host = host, conn_user = user, conn_password = password\<rparr>, None)"
  by (simp add: connect_def connect_callback_def Let_def)

text \<open>
  Claim C7 says that a connection attempt that fails makes the promise of
  \<open>connect\<close> reject, so that the error reaches the caller that awaits it. The code
  does otherwise: for every error the driver calls back with, and every host, user,
  password, name and object, the callback throws outside the promise, so the promise
  is never settled, the object is unchanged and the error is left as an uncaught
  exception. (\<open>makeQuery\<close>, next to it, rejects: lemma \<open>makeQuery_failed\<close>.)
\<close>

theorem connect_failure_never_settles:
  "connect (\<lambda>conn. Some err) host user password name this = (this, Pending, Some err)"
  by (simp add: connect_def connect_callback_def Let_def)

section \<open>Time stamps\<close>

text \<open>
  Claim C3 says that \<open>mySqlDateTime\<close> renders the instant in local time. The code
  takes the date from the UTC rendering and the time of day from the local one. On a
  machine two hours east of Greenwich, the instant 2023-06-01T23:30:00Z gives
  \<open>2023-06-01 01:30:00\<close>, where local time is \<open>2023-06-02 01:30:00\<close>.
\<close>

theorem mySqlDateTime_mixes_clocks:
  "toISOString 1685662200000 = ''2023-06-01T23:30:00.000Z'' \<and>
   mySqlDateTime 120 1685662200000 = Inr ''2023-06-01 01:30:00'' \<and>
   local_datetime 120 1685662200000 = ''2023-06-02 01:30:00''"
  by code_simp

section \<open>Setting up the relational database\<close>

text \<open>
  Claim C4 says that \<open>setup\<close> of the class \<open>Mysql\<close> leaves a fresh database
  with the two empty tables from every prior state. The code asks
  \<open>SHOW DATABASES LIKE\<close> with the name as the pattern and drops the database only
  on exactly one row. With the name \<open>automate_scanner\<close>, whose underscore matches
  any character: on a server that holds only \<open>automate-scanner\<close> the code drops a
  database that is not there, and on a server that holds both it does not drop the
  database that is there; both times \<open>setup\<close> is rejected and the server is left
  as it was, with the old rows in place.
\<close>

theorem setup_mysql_like_mismatch:
  "setup_mysql mysqld_exec (connected ''automate_scanner'') other_world =
     (other_world\<lparr>issued :=
        [ShowDatabasesLike ''automate_scanner'', DropDatabase ''automate_scanner'']\<rparr>,
      Rejected (DriverError ''ER_DB_DROP_EXISTS'')) \<and>
   setup_mysql mysqld_exec (connected ''automate_scanner'') both_world =
     (both_world\<lparr>issued :=
        [ShowDatabasesLike ''automate_scanner'', CreateDatabase ''automate_scanner'']\<rparr>,
      Rejected (DriverError ''ER_DB_CREATE_EXISTS''))"
  by code_simp

section \<open>What \<open>mySqlDateTime\<close> returns in general\<close>

lemma split_char_nonempty: "split_char c s \<noteq> []"
  by (induction s) (auto split: list.splits)

lemma hd_split_char: "c \<notin> set a \<Longrightarrow> hd (split_char c (a @ c # b)) = a"
  by (induction a) (auto simp: split_char_nonempty split: list.splits)

lemma digit_char_digit: "digit_char n \<in> set ''0123456789''"
  unfolding digit_char_def by (rule nth_mem) simp

lemma show_nat_digits: "set (show_nat n) \<subseteq> set ''0123456789''"
proof (induction n rule: show_nat.induct)
  case (1 n)
  show ?case
  proof (cases "n < 10")
    case True
    then show ?thesis
      using digit_char_digit [of n] by (subst show_nat.simps) simp
  next
    case False
    then show ?thesis
      using "1" digit_char_digit [of n] by (subst show_nat.simps) simp
  qed
qed

lemma pad_digits: "set (pad width n) \<subseteq> set ''0123456789''"
  using show_nat_digits [of n] by (auto simp: pad_def)

lemma pad_other: "c \<notin> set ''0123456789'' \<Longrightarrow> c \<notin> set (pad width n)"
  using pad_digits [of width n] by blast

lemma date_text_no_T: "CHR ''T'' \<notin> set (date_text t)"
proof -
  have "CHR ''T'' \<notin> set (pad width n)" for width n
    by (rule pad_other) simp
  then show ?thesis
    by (simp add: date_text_def split: prod.splits)
qed

lemma time_text_no_space: "CHR '' '' \<notin> set (time_text t)"
proof -
  have "CHR '' '' \<notin> set (pad width n)" for width n
    by (rule pad_other) simp
  then show ?thesis
    by (simp add: time_text_def)
qed

text \<open>
  For every time zone offset and every time stamp within the range of dates, the result
  is the UTC date followed by the local time of day; beyond the range the call throws.
\<close>

theorem mySqlDateTime_utc_date_local_time:
  "mySqlDateTime tz t =
     (if \<bar>t\<bar> \<le> 8640000000000000
      then Inr (date_text t @ '' '' @ time_text (t + tz * 60000))
      else Inl RangeError)"
proof -
  have date: "hd (split_char CHR ''T'' (toISOString t)) = date_text t"
    using date_text_no_T [of t] by (simp add: toISOString_def hd_split_char)
  have time: "hd (split_char CHR '' '' (toTimeString tz t)) = time_text (t + tz * 60000)"
    using time_text_no_space [of "t + tz * 60000"]
    by (simp add: toTimeString_def hd_split_char)
  show ?thesis
    by (simp add: mySqlDateTime_def new_Date_def date time)
qed

lemma date_text_same_day: "t div 86400000 = u div 86400000 \<Longrightarrow> date_text t = date_text u"
  by (simp add: date_text_def)

text \<open>
  The result is the instant in local time whenever the local calendar day is the UTC
  day, in particular whenever local time is UTC.
\<close>

theorem mySqlDateTime_local_on_same_day:
  "\<bar>t\<bar> \<le> 8640000000000000 \<Longrightarrow> (t + tz * 60000) div 86400000 = t div 86400000 \<Longrightarrow>
   mySqlDateTime tz t = Inr (local_datetime tz t)"
  by (simp add: mySqlDateTime_utc_date_local_time local_datetime_def
      date_text_same_day [of "t + tz * 60000" t])

lemma mySqlDateTime_example: "mySqlDateTime 0 1685629800000 = Inr (local_datetime 0 1685629800000)"
  by (rule mySqlDateTime_local_on_same_day) simp_all

section \<open>Setup when the pattern matches the name alone\<close>

text \<open>
  What \<open>setup\<close> of the class \<open>Mysql\<close> does on the server model when the
  database name, read as a \<open>LIKE\<close> pattern, matches no other database of the
  server (as for the default name \<open>automate-scanner\<close>, which has no wildcard).
\<close>

lemma makeQuery_connected:
  "db this = Some conn \<Longrightarrow>
   makeQuery exec this q w =
     (case exec (server w) q of
        Inl e \<Rightarrow> (w\<lparr>issued := issued w @ [q]\<rparr>, Rejected e)
      | Inr (srv, res) \<Rightarrow> (w\<lparr>server := srv, issued := issued w @ [q]\<rparr>, Fulfilled res))"
  by (simp add: makeQuery_def query_callback_def split: sum.splits)

lemma like_percent: "like ps s \<Longrightarrow> like (CHR ''%'' # ps) s"
  by (cases s) simp_all

lemma like_refl: "like p p"
  by (induction p) (simp_all add: like_percent)

lemma filter_eq_distinct:
  "distinct xs \<Longrightarrow> x \<in> set xs \<Longrightarrow> filter (\<lambda>y. y = x) xs = [x]"
  by (induction xs) (auto simp: filter_empty_conv)

lemma show_databases_only:
  assumes "distinct names" and "\<forall>m \<in> set names. like n m \<longrightarrow> m = n"
  shows "filter (like n) names = (if n \<in> set names then [n] else [])"
proof -
  have "filter (like n) names = filter (\<lambda>m. m = n) names"
    using assms(2) by (intro filter_cong) (auto simp: like_refl)
  also have "\<dots> = (if n \<in> set names then [n] else [])"
    using assms(1) by (auto simp: filter_eq_distinct filter_empty_conv)
  finally show ?thesis .
qed

lemma without_names: "n \<notin> set (map fst (without n dbs))"
  by (auto simp: without_def)

lemma without_absent: "n \<notin> set (map fst dbs) \<Longrightarrow> without n dbs = dbs"
  by (induction dbs) (auto simp: without_def)

lemma map_of_without: "map_of (without n dbs @ [(n, v)]) n = Some v"
  by (induction dbs) (auto simp: without_def)

lemma on_without:
  "map (\<lambda>(m, tables). if m = n then (m, change tables) else (m, tables)) (without n dbs @ [(n, v)]) =
   without n dbs @ [(n, change v)]"
  by (induction dbs) (auto simp: without_def)

lemma prepareDatabase_only:
  assumes "db this = Some conn" and "dbName this = Some n"
    and "distinct (map fst (databases srv))"
    and "\<forall>m \<in> set (map fst (databases srv)). like n m \<longrightarrow> m = n"
  shows "prepareDatabase mysqld_exec this \<lparr>server = srv, issued = log\<rparr> =
    (\<lparr>server = \<lparr>databases = without n (databases srv) @ [(n, [])], selected = Some n\<rparr>,
      issued = log @ ShowDatabasesLike n #
        (if n \<in> set (map fst (databases srv)) then [DropDatabase n] else []) @
        [CreateDatabase n, Use n]\<rparr>,
     Fulfilled ())"
proof -
  have name: "dbName_text this = n"
    using assms(2) by (simp add: dbName_text_def)
  have shown: "filter (like n) (map fst (databases srv)) =
      (if n \<in> set (map fst (databases srv)) then [n] else [])"
    using assms(3,4) by (rule show_databases_only)
  show ?thesis
  proof (cases "n \<in> set (map fst (databases srv))")
    case True
    then show ?thesis
      using shown without_names [of n "databases srv"]
      by (simp add: prepareDatabase_def name makeQuery_connected [OF assms(1)]
          await_then_simps without_def [symmetric])
  next
    case False
    then show ?thesis
      using shown
      by (simp add: prepareDatabase_def name makeQuery_connected [OF assms(1)]
          await_then_simps without_absent)
  qed
qed

lemma create_table_last:
  "t \<notin> set (map fst v) \<Longrightarrow>
   mysqld_exec \<lparr>databases = without n dbs @ [(n, v)], selected = Some n\<rparr> (CreateTable t) =
     Inr (\<lparr>databases = without n dbs @ [(n, v @ [(t, [])])], selected = Some n\<rparr>, OkPacket)"
  by (simp add: map_of_without on_database_def on_without del: map_of_append map_append)

lemma createTables_fresh:
  assumes "db this = Some conn"
  shows "await_then (createTable mysqld_exec this ''flows''
      \<lparr>server = \<lparr>databases = without n dbs @ [(n, [])], selected = Some n\<rparr>, issued = log\<rparr>)
      (\<lambda>u w. await_then (createTable mysqld_exec this ''reviews'' w) (\<lambda>u w. (w, Fulfilled ()))) =
    (\<lparr>server = \<lparr>databases = without n dbs @ [(n, fresh_schema)], selected = Some n\<rparr>,
      issued = log @ [CreateTable ''flows'', CreateTable ''reviews'']\<rparr>,
     Fulfilled ())"
  by (simp add: createTable_def sql_tables_def makeQuery_connected [OF assms] await_then_simps
      create_table_last fresh_schema_def del: mysqld_exec.simps)

text \<open>
  From every such state, with the database absent, present or populated, \<open>setup\<close>
  is fulfilled and leaves the other databases as they were and the named database
  with exactly the two empty tables, selected as the default database.
\<close>

theorem setup_mysql_fresh:
  assumes "db this = Some conn" and "dbName this = Some n"
    and "distinct (map fst (databases srv))"
    and "\<forall>m \<in> set (map fst (databases srv)). like n m \<longrightarrow> m = n"
  shows "setup_mysql mysqld_exec this \<lparr>server = srv, issued = log\<rparr> =
    (\<lparr>server = \<lparr>databases = without n (databases srv) @ [(n, fresh_schema)],
         selected = Some n\<rparr>,
      issued = log @ ShowDatabasesLike n #
        (if n \<in> set (map fst (databases srv)) then [DropDatabase n] else []) @
        [CreateDatabase n, Use n, CreateTable ''flows'', CreateTable ''reviews'']\<rparr>,
     Fulfilled ())"
  unfolding setup_mysql_def prepareDatabase_only [OF assms]
  by (simp add: await_then_simps createTables_fresh [OF assms(1)])


lemma without_twice: "without n (without n dbs @ [(n, v)]) = without n dbs"
  by (induction dbs) (auto simp: without_def)

lemma without_subset: "set (map fst (without n dbs)) \<subseteq> set (map fst dbs)"
  by (auto simp: without_def)

lemma without_distinct: "distinct (map fst dbs) \<Longrightarrow> distinct (map fst (without n dbs))"
  by (induction dbs) (auto simp: without_def)

text \<open>Running \<open>setup\<close> a second time is fulfilled too and leaves the same server state.\<close>

theorem setup_mysql_idempotent:
  assumes "db this = Some conn" and "dbName this = Some n"
    and "distinct (map fst (databases srv))"
    and "\<forall>m \<in> set (map fst (databases srv)). like n m \<longrightarrow> m = n"
  shows "snd (setup_mysql mysqld_exec this \<lparr>server = srv, issued = log\<rparr>) = Fulfilled () \<and>
    server (fst (setup_mysql mysqld_exec this \<lparr>server = srv, issued = log\<rparr>)) =
      \<lparr>databases = without n (databases srv) @ [(n, fresh_schema)], selected = Some n\<rparr> \<and>
    snd (setup_mysql mysqld_exec this
      (fst (setup_mysql mysqld_exec this \<lparr>server = srv, issued = log\<rparr>))) = Fulfilled () \<and>
    server (fst (setup_mysql mysqld_exec this
      (fst (setup_mysql mysqld_exec this \<lparr>server = srv, issued = log\<rparr>)))) =
      server (fst (setup_mysql mysqld_exec this \<lparr>server = srv, issued = log\<rparr>))"
proof -
  let ?srv1 = "\<lparr>databases = without n (databases srv) @ [(n, fresh_schema)],
      selected = Some n\<rparr>"
  have names: "distinct (map fst (databases ?srv1))"
    using assms(3) without_names [of n "databases srv"] by (simp add: without_distinct)
  have only: "\<forall>m \<in> set (map fst (databases ?srv1)). like n m \<longrightarrow> m = n"
  proof
    fix m assume "m \<in> set (map fst (databases ?srv1))"
    then have "m = n \<or> m \<in> set (map fst (databases srv))"
      using without_subset [of n "databases srv"] by auto
    then show "like n m \<longrightarrow> m = n"
      using assms(4) by blast
  qed
  have again: "without n (databases ?srv1) = without n (databases srv)"
    by (simp add: without_twice)
  show ?thesis
    unfolding setup_mysql_fresh [OF assms]
    by (simp add: setup_mysql_fresh [OF assms(1,2) names only] again del: mysqld.simps)
qed

text \<open>
  The two theorems apply to the server set up for the default name: no hypothesis is
  empty.
\<close>

lemma setup_mysql_idempotent_example:
  "snd (setup_mysql mysqld_exec (connected ''automate-scanner'')
     \<lparr>server = stored_server, issued = []\<rparr>) = Fulfilled () \<and>
   server (fst (setup_mysql mysqld_exec (connected ''automate-scanner'')
     \<lparr>server = stored_server, issued = []\<rparr>)) = ready_server"
proof -
  have names: "distinct (map fst (databases stored_server))"
    by (simp add: stored_server_def)
  have only: "\<forall>m \<in> set (map fst (databases stored_server)).
      like ''automate-scanner'' m \<longrightarrow> m = ''automate-scanner''"
    by (simp add: stored_server_def)
  have name: "dbName (connected ''automate-scanner'') = Some ''automate-scanner''"
    by (simp add: connected_def)
  from setup_mysql_idempotent [OF sample_connected name names only, of "[]"]
  show ?thesis
    by (simp add: ready_server_def stored_server_def without_def)
qed

end
